theory Spec2Isabelle
  imports Main
begin

section \<open>Python strings\<close>

text \<open>
  A Python \<open>str\<close> is modelled as a \<open>string\<close>: a list of 8-bit characters read as the
  code points 0..255. The operations below are the built-in string methods that
  \<open>book2audio.py\<close> calls.
\<close>

definition startswith :: "string \<Rightarrow> string \<Rightarrow> bool" where
  "startswith s p = (take (length p) s = p)"

text \<open>\<open>sub in s\<close>\<close>

fun str_in :: "string \<Rightarrow> string \<Rightarrow> bool" where
  "str_in sub [] = (sub = [])"
| "str_in sub (c # cs) = (startswith (c # cs) sub \<or> str_in sub cs)"

text \<open>\<open>s.replace(old, new)\<close> for a non-empty \<open>old\<close>: left to right, without overlaps.\<close>

function replace_ne :: "string \<Rightarrow> string \<Rightarrow> string \<Rightarrow> string" where
  "replace_ne [] old new = []"
| "replace_ne (c # cs) old new =
     (if old \<noteq> [] \<and> startswith (c # cs) old
      then new @ replace_ne (drop (length old) (c # cs)) old new
      else c # replace_ne cs old new)"
  by pat_completeness auto
termination
  by (relation "measure (\<lambda>(s, old, new). length s)") (auto simp: neq_Nil_conv)

definition replace :: "string \<Rightarrow> string \<Rightarrow> string \<Rightarrow> string" where
  "replace s old new =
     (if old = [] then new @ concat (map (\<lambda>c. c # new) s) else replace_ne s old new)"

text \<open>The characters for which \<open>str.isspace\<close> holds, among the code points below 256.\<close>

definition isspace :: "char \<Rightarrow> bool" where
  "isspace c = (c \<in> set [CHR 0x09, CHR 0x0A, CHR 0x0B, CHR 0x0C, CHR 0x0D, CHR 0x1C,
                          CHR 0x1D, CHR 0x1E, CHR 0x1F, CHR 0x20, CHR 0x85, CHR 0xA0])"

text \<open>\<open>s.strip()\<close> and \<open>s.strip(chars)\<close>\<close>

definition strip :: "string \<Rightarrow> string" where
  "strip s = rev (dropWhile isspace (rev (dropWhile isspace s)))"

definition strip_chars :: "string \<Rightarrow> string \<Rightarrow> string" where
  "strip_chars s chars =
     rev (dropWhile (\<lambda>c. c \<in> set chars) (rev (dropWhile (\<lambda>c. c \<in> set chars) s)))"

text \<open>Digits of a natural number in a base from 2 to 16, and \<open>str(n)\<close> for an integer.\<close>

definition digit_char :: "nat \<Rightarrow> char" where
  "digit_char d = ''0123456789abcdef'' ! d"

function to_base :: "nat \<Rightarrow> nat \<Rightarrow> string" where
  "to_base b n =
     (if n < b \<or> b < 2 then [digit_char n] else to_base b (n div b) @ [digit_char (n mod b)])"
  by pat_completeness auto
termination
  by (relation "measure (\<lambda>(b, n). n)") auto

declare to_base.simps [simp del]

definition str_int :: "int \<Rightarrow> string" where
  "str_int n = (if n < 0 then CHR ''-'' # to_base 10 (nat (- n)) else to_base 10 (nat n))"

section \<open>The printf-style operator \<open>template % n\<close>\<close>

text \<open>
  \<open>process_book\<close> applies the chapter number with \<open>filename_template % chapter_num\<close>:
  the string formatting operator of Python with a single integer operand. The
  exceptions it raises are values of \<open>py_error\<close>; \<open>Raised\<close> stands for an exception
  raised by an external call and carries its text (\<open>str(e)\<close>).
\<close>

datatype py_error =
    TypeError_not_all_converted
  | TypeError_not_enough_arguments
  | TypeError_requires_mapping
  | ValueError_incomplete_format
  | ValueError_unsupported_char char
  | ValueError_width_too_big
  | ValueError_precision_too_big
  | OverflowError_ssize_t
  | OverflowError_c_int
  | OverflowError_precision_too_large
  | OverflowError_chr
  | Raised string

text \<open>
  What the interpreter's run-time library contributes and this theory leaves open: the
  text of \<open>float(n)\<close> under a conversion \<open>e E f F g G\<close> (conversion character,
  alternate form, precision, operand), or the exception of the conversion to
  \<open>float\<close>; and the one-character string \<open>chr(n)\<close> for \<open>256 \<le> n\<close>, which has no
  8-bit character.
\<close>

record py_runtime =
  float_text :: "char \<Rightarrow> bool \<Rightarrow> nat \<Rightarrow> int \<Rightarrow> py_error + string"
  wide_chr :: "int \<Rightarrow> string"

text \<open>A conversion specifier: the flags \<open>- + space # 0\<close>, the width, the precision,
  the conversion character.\<close>

record fspec =
  ljust :: bool
  sign :: bool
  blank :: bool
  alt :: bool
  zero :: bool
  width :: "nat option"
  prec :: "nat option"
  conv :: char

definition is_flag :: "char \<Rightarrow> bool" where
  "is_flag c = (c \<in> set ''-+ #0'')"

definition is_digit :: "char \<Rightarrow> bool" where
  "is_digit c = (c \<in> set ''0123456789'')"

definition dec_value :: "string \<Rightarrow> int" where
  "dec_value ds = foldl (\<lambda>a c. 10 * a + (of_char c - 48)) 0 ds"

text \<open>
  The width: \<open>*\<close> takes it from the operand (a negative one left-justifies), which is
  then used up; digits give it directly, up to \<open>PY_SSIZE_T_MAX\<close>. The result is the
  width, whether \<open>*\<close> asked for left-justification, whether the operand is used up, and
  the rest of the template.
\<close>

definition parse_width ::
  "bool \<Rightarrow> int \<Rightarrow> string \<Rightarrow> py_error + (nat option \<times> bool \<times> bool \<times> string)" where
  "parse_width used n cs =
     (case cs of
        [] \<Rightarrow> Inr (None, False, used, [])
      | c # r \<Rightarrow>
          if c = CHR ''*'' then
            (if used then Inl TypeError_not_enough_arguments
             else if n < - 9223372036854775808 \<or> 9223372036854775808 \<le> n then Inl OverflowError_ssize_t
             else Inr (Some (nat \<bar>n\<bar>), n < 0, True, r))
          else if is_digit c then
            (if 9223372036854775808 \<le> dec_value (takeWhile is_digit cs) then Inl ValueError_width_too_big
             else Inr (Some (nat (dec_value (takeWhile is_digit cs))), False, used,
                       dropWhile is_digit cs))
          else Inr (None, False, used, cs))"

text \<open>The precision: a dot, then \<open>*\<close> (a negative operand counts as 0), digits up to
  \<open>INT_MAX\<close>, or nothing (precision 0).\<close>

definition parse_prec ::
  "bool \<Rightarrow> int \<Rightarrow> string \<Rightarrow> py_error + (nat option \<times> bool \<times> string)" where
  "parse_prec used n cs =
     (case cs of
        [] \<Rightarrow> Inr (None, used, [])
      | c # r \<Rightarrow>
          if c \<noteq> CHR ''.'' then Inr (None, used, cs)
          else (case r of
                  [] \<Rightarrow> Inr (Some 0, used, [])
                | d # r' \<Rightarrow>
                    if d = CHR ''*'' then
                      (if used then Inl TypeError_not_enough_arguments
                       else if n < - 2147483648 \<or> 2147483648 \<le> n then Inl OverflowError_c_int
                       else Inr (Some (nat n), True, r'))
                    else if is_digit d then
                      (if 2147483648 \<le> dec_value (takeWhile is_digit r)
                       then Inl ValueError_precision_too_big
                       else Inr (Some (nat (dec_value (takeWhile is_digit r))), used,
                                 dropWhile is_digit r))
                    else Inr (Some 0, used, r)))"

definition skip_length_modifier :: "string \<Rightarrow> string" where
  "skip_length_modifier cs =
     (case cs of [] \<Rightarrow> [] | c # r \<Rightarrow> if c \<in> set ''hlL'' then r else cs)"

text \<open>
  A whole specifier, read from the character after the \<open>%\<close>: a parenthesis asks for a
  mapping operand, which an integer is not; then flags, width, precision, an optional
  length modifier and the conversion character. A template that ends before the
  conversion character is an incomplete format.
\<close>

definition parse_spec ::
  "bool \<Rightarrow> int \<Rightarrow> string \<Rightarrow> py_error + (fspec \<times> bool \<times> string)" where
  "parse_spec used n cs =
     (if cs \<noteq> [] \<and> hd cs = CHR ''('' then Inl TypeError_requires_mapping
      else
        let fl = takeWhile is_flag cs in
        case parse_width used n (dropWhile is_flag cs) of
          Inl e \<Rightarrow> Inl e
        | Inr (w, wl, used1, r1) \<Rightarrow>
            (case parse_prec used1 n r1 of
               Inl e \<Rightarrow> Inl e
             | Inr (p, used2, r2) \<Rightarrow>
                 (case skip_length_modifier r2 of
                    [] \<Rightarrow> Inl ValueError_incomplete_format
                  | c # r3 \<Rightarrow>
                      Inr (\<lparr>ljust = CHR ''-'' \<in> set fl \<or> wl, sign = CHR ''+'' \<in> set fl,
                            blank = CHR '' '' \<in> set fl, alt = CHR ''#'' \<in> set fl,
                            zero = CHR ''0'' \<in> set fl, width = w, prec = p, conv = c\<rparr>,
                           used2, r3))))"

text \<open>
  Padding to the width. A number carries its sign and its \<open>0x\<close>, \<open>0X\<close> or \<open>0o\<close>
  prefix in front of the zeros that the flag \<open>0\<close> asks for; left-justification wins
  over the flag \<open>0\<close>. Text is padded with spaces only.
\<close>

definition pad_number :: "fspec \<Rightarrow> string \<Rightarrow> string \<Rightarrow> string \<Rightarrow> string" where
  "pad_number sp sg pre ds =
     (let k = (case width sp of None \<Rightarrow> 0 | Some w \<Rightarrow> w) - (length sg + length pre + length ds)
      in if ljust sp then sg @ pre @ ds @ replicate k CHR '' ''
         else if zero sp then sg @ pre @ replicate k CHR ''0'' @ ds
         else replicate k CHR '' '' @ sg @ pre @ ds)"

definition pad_text :: "fspec \<Rightarrow> string \<Rightarrow> string" where
  "pad_text sp s =
     (let k = (case width sp of None \<Rightarrow> 0 | Some w \<Rightarrow> w) - length s
      in if ljust sp then s @ replicate k CHR '' '' else replicate k CHR '' '' @ s)"

definition sign_text :: "fspec \<Rightarrow> bool \<Rightarrow> string" where
  "sign_text sp neg =
     (if neg then ''-'' else if sign sp then ''+'' else if blank sp then '' '' else [])"

text \<open>The conversions \<open>d i u\<close> (decimal) and \<open>o x X\<close>: the digits, filled with
  zeros up to the precision.\<close>

definition int_digits :: "char \<Rightarrow> nat \<Rightarrow> string" where
  "int_digits c m =
     (if c = CHR ''o'' then to_base 8 m
      else if c = CHR ''x'' then to_base 16 m
      else if c = CHR ''X'' then map (\<lambda>d. if d \<in> set ''abcdef'' then char_of (of_char d - (32::nat)) else d) (to_base 16 m)
      else to_base 10 m)"

definition format_int :: "fspec \<Rightarrow> int \<Rightarrow> py_error + string" where
  "format_int sp n =
     (case prec sp of
        Some p \<Rightarrow>
          if 2147483644 < int p then Inl OverflowError_precision_too_large
          else Inr (pad_number sp (sign_text sp (n < 0))
                      (if alt sp \<and> conv sp \<in> set ''oxX'' then [CHR ''0'', conv sp] else [])
                      (replicate (p - length (int_digits (conv sp) (nat \<bar>n\<bar>))) CHR ''0''
                         @ int_digits (conv sp) (nat \<bar>n\<bar>)))
      | None \<Rightarrow>
          Inr (pad_number sp (sign_text sp (n < 0))
                 (if alt sp \<and> conv sp \<in> set ''oxX'' then [CHR ''0'', conv sp] else [])
                 (int_digits (conv sp) (nat \<bar>n\<bar>))))"

text \<open>One conversion of the operand \<open>n\<close>, by the conversion character.\<close>

definition format_arg :: "py_runtime \<Rightarrow> fspec \<Rightarrow> int \<Rightarrow> py_error + string" where
  "format_arg rt sp n =
     (if conv sp \<in> set ''diuoxX'' then format_int sp n
      else if conv sp \<in> set ''eEfFgG'' then
        (case float_text rt (conv sp) (alt sp) (case prec sp of None \<Rightarrow> 6 | Some p \<Rightarrow> p) n of
           Inl e \<Rightarrow> Inl e
         | Inr t \<Rightarrow>
             (case t of
                [] \<Rightarrow> Inr (pad_number sp (sign_text sp False) [] [])
              | c # r \<Rightarrow>
                  if c = CHR ''-'' \<or> c = CHR ''+'' then Inr (pad_number sp [c] [] r)
                  else Inr (pad_number sp (sign_text sp False) [] t)))
      else if conv sp \<in> set ''sra'' then
        Inr (pad_text sp (case prec sp of None \<Rightarrow> str_int n | Some p \<Rightarrow> take p (str_int n)))
      else if conv sp = CHR ''c'' then
        (if n < 0 \<or> 0x110000 \<le> n then Inl OverflowError_chr
         else Inr (pad_text sp (if n < 256 then [char_of n] else wide_chr rt n)))
      else Inl (ValueError_unsupported_char (conv sp)))"

text \<open>
  The operator itself. \<open>used\<close> says whether the operand has been taken by an earlier
  specifier. Text is copied, \<open>%%\<close> is a percent sign, and any other \<open>%\<close> starts a
  specifier, which takes the operand before its conversion character is looked at. At
  the end of the template an operand that no specifier took is an error.
\<close>

lemma dropWhile_le_Suc: "length (dropWhile P xs) \<le> Suc (length xs)"
  by (rule le_SucI) (rule length_dropWhile_le)

lemma parse_width_length:
  "parse_width used n cs = Inr (w, wl, u, r) \<Longrightarrow> length r \<le> length cs"
  by (auto simp: parse_width_def dropWhile_le_Suc split: list.splits if_splits)

lemma parse_prec_length:
  "parse_prec used n cs = Inr (p, u, r) \<Longrightarrow> length r \<le> length cs"
  by (auto simp: parse_prec_def dropWhile_le_Suc le_SucI split: list.splits if_splits)

lemma skip_length_modifier_length: "length (skip_length_modifier cs) \<le> length cs"
  by (auto simp: skip_length_modifier_def split: list.splits)

lemma parse_spec_length:
  assumes "parse_spec used n cs = Inr (sp, u, r)"
  shows "length r < length cs"
proof -
  from assms obtain w wl u1 r1 p r2 c where
    a: "parse_width used n (dropWhile is_flag cs) = Inr (w, wl, u1, r1)" and
    b: "parse_prec u1 n r1 = Inr (p, u, r2)" and
    c: "skip_length_modifier r2 = c # r"
    by (auto simp: parse_spec_def Let_def split: if_splits sum.splits list.splits)
  have "length r < length (skip_length_modifier r2)" using c by simp
  also have "\<dots> \<le> length r2" by (rule skip_length_modifier_length)
  also have "\<dots> \<le> length r1" using b by (rule parse_prec_length)
  also have "\<dots> \<le> length (dropWhile is_flag cs)" using a by (rule parse_width_length)
  also have "\<dots> \<le> length cs" by (rule length_dropWhile_le)
  finally show ?thesis .
qed

function fmt_loop :: "py_runtime \<Rightarrow> int \<Rightarrow> bool \<Rightarrow> string \<Rightarrow> py_error + string" where
  "fmt_loop rt n used [] = (if used then Inr [] else Inl TypeError_not_all_converted)"
| "fmt_loop rt n used (c # cs) =
     (if c \<noteq> CHR ''%'' then map_sum id ((#) c) (fmt_loop rt n used cs)
      else if cs \<noteq> [] \<and> hd cs = CHR ''%'' then map_sum id ((#) CHR ''%'') (fmt_loop rt n used (tl cs))
      else
        case parse_spec used n cs of
          Inl e \<Rightarrow> Inl e
        | Inr (sp, used', rest) \<Rightarrow>
            if used' then Inl TypeError_not_enough_arguments
            else (case format_arg rt sp n of
                    Inl e \<Rightarrow> Inl e
                  | Inr t \<Rightarrow> map_sum id ((@) t) (fmt_loop rt n True rest)))"
  by pat_completeness auto
termination
  by (relation "measure (\<lambda>(rt, n, used, cs). length cs)")
     (auto simp: neq_Nil_conv dest: parse_spec_length)

definition py_format :: "py_runtime \<Rightarrow> string \<Rightarrow> int \<Rightarrow> py_error + string" where
  "py_format rt template n = fmt_loop rt n False template"

section \<open>The world around the program\<close>

text \<open>
  The program acts on the file system and on three external programs. The world is the
  set of paths that exist and the trace of what the program did, in order: lines
  printed, the temporary file created, the commands run, files moved and removed.
\<close>

datatype event =
    Stdout string
  | Stderr string
  | Mktemp string
  | RunSay string string
  | RunFfmpeg "string list"
  | Move string string
  | Remove string

record world =
  files :: "string set"
  trace :: "event list"

text \<open>
  How an external call ends. \<open>say\<close> and \<open>shutil.move\<close> succeed or raise (the text is
  \<open>str(e)\<close>). \<open>ffmpeg\<close> succeeds, exits with an error (\<open>CalledProcessError\<close>; it may
  have written to its output path before), is not installed (\<open>FileNotFoundError\<close>),
  or \<open>subprocess.run\<close> raises something else.
\<close>

datatype say_outcome = Say_ok | Say_raises string

datatype ffmpeg_outcome =
    Ffmpeg_ok
  | Ffmpeg_exit_error bool
  | Ffmpeg_not_found
  | Ffmpeg_raises string

datatype move_outcome = Move_ok | Move_raises string

text \<open>An EPUB as \<open>ebooklib\<close> hands it over: Dublin Core metadata as lists of
  (value, attributes) pairs, the value possibly \<open>None\<close>, and the items in container
  order, each with its type (9 is \<open>ITEM_DOCUMENT\<close>) and content.\<close>

record item =
  item_type :: nat
  item_content :: string

record book =
  dc_title :: "(string option \<times> (string \<times> string) list) list"
  dc_creator :: "(string option \<times> (string \<times> string) list) list"
  book_items :: "item list"

text \<open>
  The environment: everything the program calls and this repository does not contain.
  The outcome of a call may depend on the world at the time of the call.
\<close>

record env =
  runtime :: py_runtime
  clean_html :: "string \<Rightarrow> string"
  read_epub :: "world \<Rightarrow> string \<Rightarrow> string + book"
  mktemp :: "world \<Rightarrow> string"
  say_run :: "world \<Rightarrow> string \<Rightarrow> string \<Rightarrow> say_outcome"
  ffmpeg_run :: "world \<Rightarrow> string list \<Rightarrow> ffmpeg_outcome"
  move_run :: "world \<Rightarrow> string \<Rightarrow> string \<Rightarrow> move_outcome"

text \<open>The parsed command line.\<close>

record args =
  arg_author :: "string option"
  arg_title :: "string option"
  arg_format :: string
  arg_filename_format :: string
  arg_verbose :: bool

section \<open>The program\<close>

definition emit :: "event \<Rightarrow> world \<Rightarrow> world" where
  "emit e w = w\<lparr>trace := trace w @ [e]\<rparr>"

definition log :: "string \<Rightarrow> bool \<Rightarrow> world \<Rightarrow> world" where
  "log message verbose w = (if verbose then emit (Stdout (''[INFO] '' @ message)) w else w)"

definition get_epub_metadata :: "book \<Rightarrow> string option \<times> string option" where
  "get_epub_metadata b =
     ((case dc_creator b of [] \<Rightarrow> Some [] | (v, _) # _ \<Rightarrow> v),
      (case dc_title b of [] \<Rightarrow> Some [] | (v, _) # _ \<Rightarrow> v))"

text \<open>\<open>convert_audio\<close>: the command line handed to \<open>ffmpeg\<close>, without the output
  path (no branch of the chain adds an option for a format outside the three).\<close>

definition ffmpeg_cmd :: "string \<Rightarrow> string \<Rightarrow> string list" where
  "ffmpeg_cmd input_file ext =
     [''ffmpeg'', ''-y'', ''-i'', input_file] @
     (if ext = ''.mp3'' then [''-ac'', ''1'', ''-libmp3lame'', ''-q:a'', ''5'']
      else if ext = ''.m4a'' then [''-c:a'', ''aac'', ''-b:a'', ''128k'']
      else if ext = ''.wav'' then [''-ar'', ''44100'']
      else [])"

definition converting :: "string \<Rightarrow> string \<Rightarrow> string \<Rightarrow> string" where
  "converting input_file output_file ext =
     ''Converting '' @ input_file @ '' to '' @ output_file @ '' ('' @ ext @ '')''"

definition convert_failed :: "string \<Rightarrow> event" where
  "convert_failed ext = Stderr (''[ERROR] Failed to convert to '' @ ext @ ''. Is ffmpeg installed?'')"

definition ffmpeg_missing :: event where
  "ffmpeg_missing =
     Stderr ''[ERROR] ffmpeg not found. Please install it (brew install ffmpeg) for conversions.''"

text \<open>The result of \<open>convert_audio\<close> is the text of an exception that leaves the
  function, if any, and the world. The two handlers of the function print and return.\<close>

definition convert_audio ::
  "env \<Rightarrow> string \<Rightarrow> string \<Rightarrow> string \<Rightarrow> bool \<Rightarrow> world \<Rightarrow> string option \<times> world" where
  "convert_audio en input_file output_file ext verbose w =
     (let w1 = log (converting input_file output_file ext) verbose w;
          cmd = ffmpeg_cmd input_file ext @ [output_file]
      in if ext \<noteq> ''.mp3'' \<and> ext \<noteq> ''.m4a'' \<and> ext \<noteq> ''.wav'' \<and> ext = ''.aiff'' then
           (case move_run en w1 input_file output_file of
              Move_ok \<Rightarrow>
                (None, emit (Move input_file output_file)
                         (w1\<lparr>files := insert output_file (files w1 - {input_file})\<rparr>))
            | Move_raises msg \<Rightarrow> (Some msg, emit (Move input_file output_file) w1))
         else
           (case ffmpeg_run en w1 cmd of
              Ffmpeg_ok \<Rightarrow>
                (None, emit (RunFfmpeg cmd) (w1\<lparr>files := insert output_file (files w1)\<rparr>))
            | Ffmpeg_exit_error wrote \<Rightarrow>
                (None,
                 emit (convert_failed ext)
                   (emit (RunFfmpeg cmd)
                      (w1\<lparr>files := (if wrote then insert output_file (files w1) else files w1)\<rparr>)))
            | Ffmpeg_not_found \<Rightarrow> (None, emit ffmpeg_missing (emit (RunFfmpeg cmd) w1))
            | Ffmpeg_raises msg \<Rightarrow> (Some msg, emit (RunFfmpeg cmd) w1)))"

text \<open>\<open>x if x else y\<close> on a string that may be \<open>None\<close>: both \<open>None\<close> and the empty
  string are false.\<close>

definition py_or :: "string option \<Rightarrow> string \<Rightarrow> string" where
  "py_or x y = (case x of None \<Rightarrow> y | Some s \<Rightarrow> if s = [] then y else s)"

definition resolve_author :: "args \<Rightarrow> book \<Rightarrow> string" where
  "resolve_author a b = py_or (arg_author a) (py_or (fst (get_epub_metadata b)) ''Unknown Author'')"

definition resolve_title :: "args \<Rightarrow> book \<Rightarrow> string" where
  "resolve_title a b = py_or (arg_title a) (py_or (snd (get_epub_metadata b)) ''Unknown Title'')"

text \<open>\<open>re.sub(r'[\\/*?:"<>|]', "", s)\<close>: the characters of the class are removed.\<close>

definition unsafe_chars :: "char list" where
  "unsafe_chars = [CHR 0x5C, CHR ''/'', CHR ''*'', CHR ''?'', CHR '':'', CHR 0x22,
                   CHR ''<'', CHR ''>'', CHR ''|'']"

definition sanitize :: "string \<Rightarrow> string" where
  "sanitize s = filter (\<lambda>c. c \<notin> set unsafe_chars) s"

text \<open>The file name of a chapter (lines 128 to 137 of \<open>process_book\<close>).\<close>

definition ext_of :: "args \<Rightarrow> string" where
  "ext_of a = (if startswith (arg_format a) ''.'' then arg_format a else ''.'' @ arg_format a)"

definition final_filename :: "env \<Rightarrow> args \<Rightarrow> string \<Rightarrow> string \<Rightarrow> int \<Rightarrow> py_error + string" where
  "final_filename en a safe_author safe_title chapter_num =
     (let filename_template =
            replace (replace (arg_filename_format a) ''${Author}'' safe_author)
              ''${Title}'' safe_title
      in case py_format (runtime en) filename_template chapter_num of
           Inl e \<Rightarrow> Inl e
         | Inr f \<Rightarrow>
             if str_in ''${ext}'' f then Inr (replace f ''${ext}'' (strip_chars (ext_of a) ''.''))
             else Inr (f @ ext_of a))"

text \<open>Speech synthesis and conversion of one chapter (lines 140 to 154): the temporary
  file, the \<open>try\<close> block and its handler. Nothing is raised from here.\<close>

definition tts_failed :: "int \<Rightarrow> string \<Rightarrow> event" where
  "tts_failed chapter_num msg =
     Stdout (''[ERROR] TTS or Conversion failed for chapter '' @ str_int chapter_num @ '': '' @ msg)"

definition make_temp :: "env \<Rightarrow> world \<Rightarrow> world" where
  "make_temp en w = emit (Mktemp (mktemp en w)) (w\<lparr>files := insert (mktemp en w) (files w)\<rparr>)"

definition tts_generation :: "env \<Rightarrow> args \<Rightarrow> int \<Rightarrow> string \<Rightarrow> string \<Rightarrow> world \<Rightarrow> world" where
  "tts_generation en a chapter_num text filename w =
     (let temp_aiff = mktemp en w;
          w1 = make_temp en w
      in case say_run en w1 temp_aiff text of
           Say_raises msg \<Rightarrow> emit (tts_failed chapter_num msg) (emit (RunSay temp_aiff text) w1)
         | Say_ok \<Rightarrow>
             (case convert_audio en temp_aiff filename (ext_of a) (arg_verbose a)
                     (emit (RunSay temp_aiff text) w1) of
                (Some msg, w2) \<Rightarrow> emit (tts_failed chapter_num msg) w2
              | (None, w2) \<Rightarrow>
                  if temp_aiff \<in> files w2
                  then emit (Remove temp_aiff) (w2\<lparr>files := files w2 - {temp_aiff}\<rparr>)
                  else w2))"

text \<open>One accepted chapter: the progress line, the file name (an exception of the
  formatting operator leaves \<open>process_book\<close>), then synthesis and conversion.\<close>

definition process_chapter ::
  "env \<Rightarrow> args \<Rightarrow> string \<Rightarrow> string \<Rightarrow> int \<Rightarrow> string \<Rightarrow> world \<Rightarrow> py_error option \<times> world" where
  "process_chapter en a safe_author safe_title chapter_num text w =
     (let w1 = log (''Processing Chapter '' @ str_int chapter_num @ ''...'') (arg_verbose a) w
      in case final_filename en a safe_author safe_title chapter_num of
           Inl e \<Rightarrow> (Some e, w1)
         | Inr filename \<Rightarrow> (None, tts_generation en a chapter_num text filename w1))"

text \<open>The text of an item, and the loop over the items (lines 115 to 156).\<close>

definition item_text :: "env \<Rightarrow> item \<Rightarrow> string" where
  "item_text en it = strip (clean_html en (item_content it))"

fun chapters_loop ::
  "env \<Rightarrow> args \<Rightarrow> string \<Rightarrow> string \<Rightarrow> item list \<Rightarrow> int \<Rightarrow> world \<Rightarrow> py_error option \<times> world" where
  "chapters_loop en a safe_author safe_title [] chapter_num w = (None, w)"
| "chapters_loop en a safe_author safe_title (it # its) chapter_num w =
     (if item_type it = 9 then
        (if length (item_text en it) < 100
         then chapters_loop en a safe_author safe_title its chapter_num w
         else (case process_chapter en a safe_author safe_title chapter_num (item_text en it) w of
                 (Some e, w') \<Rightarrow> (Some e, w')
               | (None, w') \<Rightarrow> chapters_loop en a safe_author safe_title its (chapter_num + 1) w'))
      else chapters_loop en a safe_author safe_title its chapter_num w)"

definition process_book :: "env \<Rightarrow> args \<Rightarrow> string \<Rightarrow> world \<Rightarrow> py_error option \<times> world" where
  "process_book en a filepath w =
     (if filepath \<notin> files w then (None, emit (Stdout (''[ERROR] File not found: '' @ filepath)) w)
      else case read_epub en w filepath of
             Inl msg \<Rightarrow>
               (None, emit (Stdout (''[ERROR] Could not read EPUB '' @ filepath @ '': '' @ msg)) w)
           | Inr b \<Rightarrow>
               chapters_loop en a (sanitize (resolve_author a b)) (sanitize (resolve_title a b))
                 (book_items b) 1
                 (log (''Identified Title: '' @ resolve_title a b) (arg_verbose a)
                    (log (''Identified Author: '' @ resolve_author a b) (arg_verbose a) w)))"

text \<open>The loop of \<open>main\<close> over the input files, after the format got its leading dot.
  An exception that leaves \<open>process_book\<close> ends the run.\<close>

definition format_choices :: "string list" where
  "format_choices = [''.m4a'', ''.mp3'', ''.wav'', ''.aiff'', ''m4a'', ''mp3'', ''wav'', ''aiff'']"

definition default_filename_format :: string where
  "default_filename_format = ''${Author}-${Title} - Chapter %02d.${ext}''"



text \<open>The lines a run printed, on either stream, in order.\<close>

fun printed :: "event list \<Rightarrow> string list" where
  "printed [] = []"
| "printed (Stdout l # es) = l # printed es"
| "printed (Stderr l # es) = l # printed es"
| "printed (e # es) = printed es"

section \<open>Chapters as the specification describes them\<close>

text \<open>
  The specification speaks of chapters: the accepted content items, numbered from 1 in
  document order, each processed in turn. \<open>accepted_texts\<close> are the texts of the items
  that pass the type and length filters, \<open>number_from\<close> numbers them, and \<open>produce\<close>
  processes numbered chapters one after the other, stopping only at an exception that
  leaves \<open>process_chapter\<close>.
\<close>

definition accepted_texts :: "env \<Rightarrow> item list \<Rightarrow> string list" where
  "accepted_texts en its =
     filter (\<lambda>t. 100 \<le> length t) (map (item_text en) (filter (\<lambda>it. item_type it = 9) its))"

fun number_from :: "int \<Rightarrow> string list \<Rightarrow> (int \<times> string) list" where
  "number_from k [] = []"
| "number_from k (t # ts) = (k, t) # number_from (k + 1) ts"

fun produce ::
  "env \<Rightarrow> args \<Rightarrow> string \<Rightarrow> string \<Rightarrow> (int \<times> string) list \<Rightarrow> world \<Rightarrow> py_error option \<times> world" where
  "produce en a safe_author safe_title [] w = (None, w)"
| "produce en a safe_author safe_title ((k, t) # rest) w =
     (case process_chapter en a safe_author safe_title k t w of
        (Some e, w') \<Rightarrow> (Some e, w')
      | (None, w') \<Rightarrow> produce en a safe_author safe_title rest w')"

section \<open>An example run\<close>

text \<open>
  A concrete environment for the examples: formatting of floats and wide characters is
  not used, the text of an item is its content, every path names the same book, the
  temporary file is numbered by the length of the trace, and the external programs end
  as the three parameters say.
\<close>

definition demo_items :: "item list" where
  "demo_items =
     [\<lparr>item_type = 9, item_content = replicate 100 CHR ''a''\<rparr>,
      \<lparr>item_type = 1, item_content = replicate 200 CHR ''i''\<rparr>,
      \<lparr>item_type = 9, item_content = ''  cover  ''\<rparr>,
      \<lparr>item_type = 9, item_content = replicate 100 CHR ''b''\<rparr>]"

definition demo_book :: book where
  "demo_book = \<lparr>dc_title = [(Some ''Dune'', [])], dc_creator = [(Some ''Jane Doe'', [])],
                 book_items = demo_items\<rparr>"

definition demo_env :: "say_outcome \<Rightarrow> ffmpeg_outcome \<Rightarrow> move_outcome \<Rightarrow> env" where
  "demo_env s f m =
     \<lparr>runtime = \<lparr>float_text = (\<lambda>c alt p n. Inr []), wide_chr = (\<lambda>n. [])\<rparr>,
      clean_html = (\<lambda>content. content),
      read_epub = (\<lambda>w path. Inr demo_book),
      mktemp = (\<lambda>w. ''/tmp/tmp'' @ str_int (int (length (trace w))) @ ''.aiff''),
      say_run = (\<lambda>w temp t. s),
      ffmpeg_run = (\<lambda>w cmd. f),
      move_run = (\<lambda>w src dst. m)\<rparr>"

definition demo_args :: "string \<Rightarrow> string \<Rightarrow> args" where
  "demo_args fmt template =
     \<lparr>arg_author = None, arg_title = None, arg_format = fmt, arg_filename_format = template,
      arg_verbose = False\<rparr>"

definition demo_world :: world where
  "demo_world = \<lparr>files = {''a.epub'', ''b.epub''}, trace = []\<rparr>"

section \<open>Properties\<close>


lemma trace_emit: "trace (emit e w) = trace w @ [e]"
  by (simp add: emit_def)

lemma files_emit: "files (emit e w) = files w"
  by (simp add: emit_def)

lemma files_log: "files (log m v w) = files w"
  by (simp add: log_def files_emit)

lemma trace_log: "trace (log m v w) = trace w @ (if v then [Stdout (''[INFO] '' @ m)] else [])"
  by (simp add: log_def trace_emit)

lemma py_or_Some: "x \<noteq> [] \<Longrightarrow> py_or (Some x) y = x"
  by (simp add: py_or_def)

lemma sanitize_safe: "set (sanitize s) \<inter> set unsafe_chars = {}"
  by (auto simp: sanitize_def)

text \<open>
  C10. An empty string given for \<open>--author\<close> or \<open>--title\<close> does not override: the
  result is the one of a run without the option, that is the first metadata value, or
  the fallback when there is no metadata value or it is empty.
\<close>

theorem C10_empty_override_is_absent:
  "resolve_author (a\<lparr>arg_author := Some []\<rparr>) b = resolve_author (a\<lparr>arg_author := None\<rparr>) b \<and>
   resolve_title (a\<lparr>arg_title := Some []\<rparr>) b = resolve_title (a\<lparr>arg_title := None\<rparr>) b \<and>
   resolve_author (a\<lparr>arg_author := Some []\<rparr>) (b\<lparr>dc_creator := (Some m, at) # others\<rparr>) =
     (if m = [] then ''Unknown Author'' else m) \<and>
   resolve_title (a\<lparr>arg_title := Some []\<rparr>) (b\<lparr>dc_title := (Some m, at) # others\<rparr>) =
     (if m = [] then ''Unknown Title'' else m) \<and>
   resolve_author (a\<lparr>arg_author := Some []\<rparr>) (b\<lparr>dc_creator := []\<rparr>) = ''Unknown Author'' \<and>
   resolve_title (a\<lparr>arg_title := Some []\<rparr>) (b\<lparr>dc_title := []\<rparr>) = ''Unknown Title''"
  by (simp add: resolve_author_def resolve_title_def py_or_def get_epub_metadata_def)


lemma convert_audio_trace:
  "\<exists>evs. trace (snd (convert_audio en i out ext v w)) = trace w @ evs"
  by (simp add: convert_audio_def Let_def trace_emit trace_log
           split: move_outcome.splits ffmpeg_outcome.splits)

lemma trace_make_temp: "trace (make_temp en w) = trace w @ [Mktemp (mktemp en w)]"
  by (simp add: make_temp_def trace_emit)

lemma files_make_temp: "files (make_temp en w) = insert (mktemp en w) (files w)"
  by (simp add: make_temp_def files_emit)

lemma tts_generation_trace:
  "\<exists>evs. trace (tts_generation en a k text f w) = trace w @ evs"
proof -
  obtain r w2 where c: "convert_audio en (mktemp en w) f (ext_of a) (arg_verbose a)
      (emit (RunSay (mktemp en w) text) (make_temp en w)) = (r, w2)"
    by (cases "convert_audio en (mktemp en w) f (ext_of a) (arg_verbose a)
      (emit (RunSay (mktemp en w) text) (make_temp en w))") auto
  from convert_audio_trace[of en "mktemp en w" f "ext_of a" "arg_verbose a"
      "emit (RunSay (mktemp en w) text) (make_temp en w)"]
  obtain evs where "trace w2 = trace w @ Mktemp (mktemp en w) # RunSay (mktemp en w) text # evs"
    by (auto simp: c trace_emit trace_make_temp)
  then show ?thesis
    by (simp add: tts_generation_def Let_def c trace_emit trace_make_temp
             split: say_outcome.splits option.splits)
qed

lemma process_chapter_trace:
  "\<exists>evs. trace (snd (process_chapter en a sa st k text w)) = trace w @ evs"
proof (cases "final_filename en a sa st k")
  case (Inl e)
  then show ?thesis by (simp add: process_chapter_def Let_def trace_log)
next
  case (Inr f)
  from tts_generation_trace[of en a k "text" f
      "log (''Processing Chapter '' @ str_int k @ ''...'') (arg_verbose a) w"]
  show ?thesis by (auto simp: process_chapter_def Let_def trace_log Inr)
qed

lemma chapters_loop_trace:
  "\<exists>evs. trace (snd (chapters_loop en a sa st its k w)) = trace w @ evs"
proof (induction its arbitrary: k w)
  case Nil
  show ?case by simp
next
  case (Cons it its)
  obtain r w' where p: "process_chapter en a sa st k (item_text en it) w = (r, w')"
    by (cases "process_chapter en a sa st k (item_text en it) w") auto
  from process_chapter_trace[of en a sa st k "item_text en it" w]
  obtain evs where e: "trace w' = trace w @ evs" by (auto simp: p)
  from Cons.IH[of "k + 1" w'] obtain evs' where
    "trace (snd (chapters_loop en a sa st its (k + 1) w')) = trace w @ evs @ evs'"
    by (auto simp: e)
  with Cons.IH[of k w] e show ?case
    by (auto simp: p split: option.splits)
qed

text \<open>
  C6. Author and title are the command-line override when one is given, otherwise the
  first value of the metadata field, otherwise the fallback string; a non-empty
  override wins over any metadata. The sanitized form has none of the nine characters,
  and it is the form handed to the chapter loop for the file names, while the lines
  printed under \<open>--verbose\<close> carry the values as resolved.
\<close>

theorem C6_identity_precedence:
  "(arg_author a = Some x \<and> x \<noteq> [] \<longrightarrow> resolve_author a b = x) \<and>
   (arg_author a = None \<and> dc_creator b = (Some m, at) # others \<and> m \<noteq> [] \<longrightarrow>
      resolve_author a b = m) \<and>
   (arg_author a = None \<and> dc_creator b = [] \<longrightarrow> resolve_author a b = ''Unknown Author'') \<and>
   (arg_title a = Some y \<and> y \<noteq> [] \<longrightarrow> resolve_title a b = y) \<and>
   (arg_title a = None \<and> dc_title b = (Some m', at') # others' \<and> m' \<noteq> [] \<longrightarrow>
      resolve_title a b = m') \<and>
   (arg_title a = None \<and> dc_title b = [] \<longrightarrow> resolve_title a b = ''Unknown Title'') \<and>
   set (sanitize s) \<inter> set unsafe_chars = {} \<and>
   (filepath \<in> files w \<and> read_epub en w filepath = Inr b \<longrightarrow>
      process_book en a filepath w =
        chapters_loop en a (sanitize (resolve_author a b)) (sanitize (resolve_title a b))
          (book_items b) 1
          (log (''Identified Title: '' @ resolve_title a b) (arg_verbose a)
             (log (''Identified Author: '' @ resolve_author a b) (arg_verbose a) w)) \<and>
      (arg_verbose a \<longrightarrow>
         take 2 (drop (length (trace w)) (trace (snd (process_book en a filepath w)))) =
           [Stdout (''[INFO] Identified Author: '' @ resolve_author a b),
            Stdout (''[INFO] Identified Title: '' @ resolve_title a b)]))"
proof -
  have pb: "process_book en a filepath w =
        chapters_loop en a (sanitize (resolve_author a b)) (sanitize (resolve_title a b))
          (book_items b) 1
          (log (''Identified Title: '' @ resolve_title a b) (arg_verbose a)
             (log (''Identified Author: '' @ resolve_author a b) (arg_verbose a) w))"
    if "filepath \<in> files w" "read_epub en w filepath = Inr b"
    using that by (simp add: process_book_def)
  have tr: "take 2 (drop (length (trace w)) (trace (snd (process_book en a filepath w)))) =
           [Stdout (''[INFO] Identified Author: '' @ resolve_author a b),
            Stdout (''[INFO] Identified Title: '' @ resolve_title a b)]"
    if h: "filepath \<in> files w" "read_epub en w filepath = Inr b" and v: "arg_verbose a"
  proof -
    from chapters_loop_trace[of en a "sanitize (resolve_author a b)"
        "sanitize (resolve_title a b)" "book_items b" 1
        "log (''Identified Title: '' @ resolve_title a b) (arg_verbose a)
             (log (''Identified Author: '' @ resolve_author a b) (arg_verbose a) w)"]
    obtain evs where "trace (snd (process_book en a filepath w)) =
        trace w @ [Stdout (''[INFO] Identified Author: '' @ resolve_author a b),
                   Stdout (''[INFO] Identified Title: '' @ resolve_title a b)] @ evs"
      by (auto simp: pb[OF h] trace_log v)
    then show ?thesis by simp
  qed
  have r: "(arg_author a = Some x \<and> x \<noteq> [] \<longrightarrow> resolve_author a b = x) \<and>
   (arg_author a = None \<and> dc_creator b = (Some m, at) # others \<and> m \<noteq> [] \<longrightarrow>
      resolve_author a b = m) \<and>
   (arg_author a = None \<and> dc_creator b = [] \<longrightarrow> resolve_author a b = ''Unknown Author'') \<and>
   (arg_title a = Some y \<and> y \<noteq> [] \<longrightarrow> resolve_title a b = y) \<and>
   (arg_title a = None \<and> dc_title b = (Some m', at') # others' \<and> m' \<noteq> [] \<longrightarrow>
      resolve_title a b = m') \<and>
   (arg_title a = None \<and> dc_title b = [] \<longrightarrow> resolve_title a b = ''Unknown Title'')"
    by (simp add: resolve_author_def resolve_title_def py_or_def get_epub_metadata_def)
  show ?thesis using r sanitize_safe[of s] pb tr by blast
qed

theorem C6_identity_precedence_witness:
  "resolve_author \<lparr>arg_author = Some ''X'', arg_title = None, arg_format = ''.m4a'',
       arg_filename_format = ''%02d'', arg_verbose = False\<rparr>
     \<lparr>dc_title = [(Some ''Dune'', [])], dc_creator = [(Some ''A/B'', [])], book_items = []\<rparr> = ''X'' \<and>
   resolve_title \<lparr>arg_author = Some ''X'', arg_title = None, arg_format = ''.m4a'',
       arg_filename_format = ''%02d'', arg_verbose = False\<rparr>
     \<lparr>dc_title = [(Some ''Dune'', [])], dc_creator = [(Some ''A/B'', [])], book_items = []\<rparr> = ''Dune'' \<and>
   sanitize ''A/B'' = ''AB''"
  using C6_identity_precedence[where a = "\<lparr>arg_author = Some ''X'', arg_title = None,
       arg_format = ''.m4a'', arg_filename_format = ''%02d'', arg_verbose = False\<rparr>"
     and b = "\<lparr>dc_title = [(Some ''Dune'', [])], dc_creator = [(Some ''A/B'', [])], book_items = []\<rparr>"
     and x = "''X''" and m' = "''Dune''" and at' = "[]" and others' = "[]"]
  by (simp add: sanitize_def unsafe_chars_def)


lemma fmt_loop_plain:
  "CHR ''%'' \<notin> set s \<Longrightarrow>
   fmt_loop rt n used s = (if used then Inr s else Inl TypeError_not_all_converted)"
  by (induction s) auto




lemma chapters_loop_produce:
  "chapters_loop en a sa st its k w = produce en a sa st (number_from k (accepted_texts en its)) w"
proof (induction its arbitrary: k w)
  case Nil
  show ?case by (simp add: accepted_texts_def)
next
  case (Cons it its)
  show ?case
  proof (cases "item_type it = 9 \<and> 100 \<le> length (item_text en it)")
    case True
    then have "accepted_texts en (it # its) = item_text en it # accepted_texts en its"
      by (simp add: accepted_texts_def)
    with True Cons.IH[of "k + 1"] show ?thesis
      by (auto split: prod.splits option.splits)
  next
    case False
    then have "accepted_texts en (it # its) = accepted_texts en its"
      by (auto simp: accepted_texts_def)
    with False Cons.IH[of k w] show ?thesis by auto
  qed
qed







lemma parse_spec_d: "parse_spec False n (CHR ''d'' # post) =
   Inr (\<lparr>ljust = False, sign = False, blank = False, alt = False, zero = False,
          width = None, prec = None, conv = CHR ''d''\<rparr>, False, post)"
  by (simp add: parse_spec_def parse_width_def parse_prec_def skip_length_modifier_def
                is_flag_def is_digit_def)

lemma parse_spec_02d: "parse_spec False n (CHR ''0'' # CHR ''2'' # CHR ''d'' # post) =
   Inr (\<lparr>ljust = False, sign = False, blank = False, alt = False, zero = True,
          width = Some 2, prec = None, conv = CHR ''d''\<rparr>, False, post)"
  by (simp add: parse_spec_def parse_width_def parse_prec_def skip_length_modifier_def
                is_flag_def is_digit_def dec_value_def)

lemma format_arg_d: "format_arg rt \<lparr>ljust = False, sign = False, blank = False, alt = False,
     zero = False, width = None, prec = None, conv = CHR ''d''\<rparr> n = Inr (str_int n)"
  by (simp add: format_arg_def format_int_def pad_number_def sign_text_def int_digits_def
                str_int_def)

lemma format_arg_02d: "0 \<le> n \<Longrightarrow> format_arg rt \<lparr>ljust = False, sign = False, blank = False,
     alt = False, zero = True, width = Some 2, prec = None, conv = CHR ''d''\<rparr> n
   = Inr (replicate (2 - length (str_int n)) CHR ''0'' @ str_int n)"
  by (simp add: format_arg_def format_int_def pad_number_def sign_text_def int_digits_def
                str_int_def)

lemma fmt_loop_d:
  "CHR ''%'' \<notin> set pre \<Longrightarrow> CHR ''%'' \<notin> set post \<Longrightarrow>
   fmt_loop rt n False (pre @ ''%d'' @ post) = Inr (pre @ str_int n @ post)"
  by (induction pre) (auto simp: parse_spec_d format_arg_d fmt_loop_plain)

lemma fmt_loop_02d:
  "CHR ''%'' \<notin> set pre \<Longrightarrow> CHR ''%'' \<notin> set post \<Longrightarrow> 0 \<le> n \<Longrightarrow>
   fmt_loop rt n False (pre @ ''%02d'' @ post)
     = Inr (pre @ replicate (2 - length (str_int n)) CHR ''0'' @ str_int n @ post)"
  by (induction pre) (auto simp: parse_spec_02d format_arg_02d fmt_loop_plain)

lemma ext_of_choices:
  "arg_format a \<in> set format_choices \<Longrightarrow>
   ext_of a \<in> set [''.m4a'', ''.mp3'', ''.wav'', ''.aiff'']"
  by (auto simp: format_choices_def ext_of_def startswith_def)

lemma strip_dot_choices:
  "arg_format a \<in> set format_choices \<Longrightarrow>
   ext_of a = CHR ''.'' # strip_chars (ext_of a) ''.''"
  by (drule ext_of_choices) (auto simp: strip_chars_def)

text \<open>
  C4. The file name of a chapter is rendered in three steps: the tokens \<open>${Author}\<close> and
  \<open>${Title}\<close> of the template are replaced by the sanitized author and title, the
  chapter number is applied with the formatting operator, and a \<open>${ext}\<close> in the result
  is replaced by the extension without its leading dot, and without such a token the
  extension with its dot is appended (for each of the eight accepted formats the
  extension is a dot followed by what replaces the token). A directive \<open>%d\<close> in
  percent-free text becomes the decimal chapter number, and \<open>%02d\<close> the number filled
  with zeros to two digits. The two examples of the specification come out as stated.
\<close>

theorem C4_filename_rendering:
  "(arg_format a \<in> set format_choices \<longrightarrow>
      ext_of a = CHR ''.'' # strip_chars (ext_of a) ''.'' \<and>
      final_filename en a sa st n =
        (case py_format (runtime en)
                (replace (replace (arg_filename_format a) ''${Author}'' sa) ''${Title}'' st) n of
           Inl e \<Rightarrow> Inl e
         | Inr f \<Rightarrow>
             Inr (if str_in ''${ext}'' f then replace f ''${ext}'' (tl (ext_of a))
                  else f @ ext_of a))) \<and>
   (CHR ''%'' \<notin> set pre \<and> CHR ''%'' \<notin> set post \<longrightarrow>
      py_format rt (pre @ ''%d'' @ post) n = Inr (pre @ str_int n @ post)) \<and>
   (CHR ''%'' \<notin> set pre \<and> CHR ''%'' \<notin> set post \<and> 0 \<le> n \<longrightarrow>
      py_format rt (pre @ ''%02d'' @ post) n =
        Inr (pre @ replicate (2 - length (str_int n)) CHR ''0'' @ str_int n @ post)) \<and>
   final_filename en
     \<lparr>arg_author = oa, arg_title = ot, arg_format = ''.mp3'',
      arg_filename_format = ''${Author}-${Title} - Chapter %02d.${ext}'', arg_verbose = v\<rparr>
     (sanitize ''Jane Doe'') (sanitize ''Dune'') 3 = Inr ''Jane Doe-Dune - Chapter 03.mp3'' \<and>
   final_filename en
     \<lparr>arg_author = oa, arg_title = ot, arg_format = ''wav'',
      arg_filename_format = ''Ch%d'', arg_verbose = v\<rparr> sa st 7 = Inr ''Ch7.wav''"
proof -
  have g: "ext_of a = CHR ''.'' # strip_chars (ext_of a) ''.'' \<and>
      final_filename en a sa st n =
        (case py_format (runtime en)
                (replace (replace (arg_filename_format a) ''${Author}'' sa) ''${Title}'' st) n of
           Inl e \<Rightarrow> Inl e
         | Inr f \<Rightarrow>
             Inr (if str_in ''${ext}'' f then replace f ''${ext}'' (tl (ext_of a))
                  else f @ ext_of a))"
    if c: "arg_format a \<in> set format_choices"
  proof -
    from strip_dot_choices[OF c] have "tl (ext_of a) = strip_chars (ext_of a) ''.''"
      by (metis list.sel(3))
    with strip_dot_choices[OF c] show ?thesis
      by (simp add: final_filename_def Let_def split: sum.splits)
  qed
  have e1: "final_filename en
     \<lparr>arg_author = oa, arg_title = ot, arg_format = ''.mp3'',
      arg_filename_format = ''${Author}-${Title} - Chapter %02d.${ext}'', arg_verbose = v\<rparr>
     (sanitize ''Jane Doe'') (sanitize ''Dune'') 3 = Inr ''Jane Doe-Dune - Chapter 03.mp3''"
    by code_simp
  have e2: "final_filename en
     \<lparr>arg_author = oa, arg_title = ot, arg_format = ''wav'',
      arg_filename_format = ''Ch%d'', arg_verbose = v\<rparr> sa st 7 = Inr ''Ch7.wav''"
    by code_simp
  show ?thesis
    using g e1 e2 fmt_loop_d[of pre post rt n] fmt_loop_02d[of pre post n rt]
    unfolding py_format_def by blast
qed

theorem C4_filename_rendering_witness:
  "strip_chars (ext_of (demo_args ''mp3'' default_filename_format)) ''.'' = ''mp3'' \<and>
   final_filename (demo_env Say_ok Ffmpeg_ok Move_ok) (demo_args ''mp3'' default_filename_format)
     ''Jane Doe'' ''Dune'' 3 = Inr ''Jane Doe-Dune - Chapter 03.mp3'' \<and>
   py_format (runtime (demo_env Say_ok Ffmpeg_ok Move_ok)) ''Ch%d.wav'' 7 = Inr ''Ch7.wav'' \<and>
   py_format (runtime (demo_env Say_ok Ffmpeg_ok Move_ok)) ''Ch%02d.wav'' 7 = Inr ''Ch07.wav''"
proof -
  have h: "arg_format (demo_args ''mp3'' default_filename_format) \<in> set format_choices"
    by (simp add: demo_args_def format_choices_def)
  have p: "CHR ''%'' \<notin> set ''Ch''" "CHR ''%'' \<notin> set ''.wav''" "(0::int) \<le> 7"
    by simp_all
  have x: "ext_of (demo_args ''mp3'' default_filename_format) = ''.mp3''"
    by (simp add: demo_args_def ext_of_def startswith_def)
  have f: "py_format (runtime (demo_env Say_ok Ffmpeg_ok Move_ok))
     (replace (replace (arg_filename_format (demo_args ''mp3'' default_filename_format))
        ''${Author}'' ''Jane Doe'') ''${Title}'' ''Dune'') 3
     = Inr ''Jane Doe-Dune - Chapter 03.${ext}''"
    by code_simp
  have r: "str_in ''${ext}'' ''Jane Doe-Dune - Chapter 03.${ext}''"
    "replace ''Jane Doe-Dune - Chapter 03.${ext}'' ''${ext}'' ''mp3'' = ''Jane Doe-Dune - Chapter 03.mp3''"
    "str_int 7 = ''7''"
    by code_simp+
  from C4_filename_rendering[where a = "demo_args ''mp3'' default_filename_format"
      and en = "demo_env Say_ok Ffmpeg_ok Move_ok" and sa = "''Jane Doe''" and st = "''Dune''"
      and n = 7 and pre = "''Ch''" and post = "''.wav''"
      and rt = "runtime (demo_env Say_ok Ffmpeg_ok Move_ok)"] h p
  have a: "ext_of (demo_args ''mp3'' default_filename_format) =
        CHR ''.'' # strip_chars (ext_of (demo_args ''mp3'' default_filename_format)) ''.''"
    and b: "py_format (runtime (demo_env Say_ok Ffmpeg_ok Move_ok)) (''Ch'' @ ''%d'' @ ''.wav'') 7
        = Inr (''Ch'' @ str_int 7 @ ''.wav'')"
    and c: "py_format (runtime (demo_env Say_ok Ffmpeg_ok Move_ok)) (''Ch'' @ ''%02d'' @ ''.wav'') 7
        = Inr (''Ch'' @ replicate (2 - length (str_int 7)) CHR ''0'' @ str_int 7 @ ''.wav'')"
    by blast+
  from C4_filename_rendering[where a = "demo_args ''mp3'' default_filename_format"
      and en = "demo_env Say_ok Ffmpeg_ok Move_ok" and sa = "''Jane Doe''" and st = "''Dune''"
      and n = 3] h
  have d: "final_filename (demo_env Say_ok Ffmpeg_ok Move_ok)
       (demo_args ''mp3'' default_filename_format) ''Jane Doe'' ''Dune'' 3 =
        (case py_format (runtime (demo_env Say_ok Ffmpeg_ok Move_ok))
                (replace (replace (arg_filename_format (demo_args ''mp3'' default_filename_format))
                   ''${Author}'' ''Jane Doe'') ''${Title}'' ''Dune'') 3 of
           Inl e \<Rightarrow> Inl e
         | Inr f \<Rightarrow>
             Inr (if str_in ''${ext}'' f
                  then replace f ''${ext}'' (tl (ext_of (demo_args ''mp3'' default_filename_format)))
                  else f @ ext_of (demo_args ''mp3'' default_filename_format)))"
    by blast
  from a x have s: "strip_chars (ext_of (demo_args ''mp3'' default_filename_format)) ''.'' = ''mp3''"
    by simp
  from d have d': "final_filename (demo_env Say_ok Ffmpeg_ok Move_ok)
       (demo_args ''mp3'' default_filename_format) ''Jane Doe'' ''Dune'' 3 =
       Inr ''Jane Doe-Dune - Chapter 03.mp3''"
    by (simp only: f r x sum.case if_True list.sel)
  from b c have "py_format (runtime (demo_env Say_ok Ffmpeg_ok Move_ok)) ''Ch%d.wav'' 7 = Inr ''Ch7.wav''"
    and "py_format (runtime (demo_env Say_ok Ffmpeg_ok Move_ok)) ''Ch%02d.wav'' 7 = Inr ''Ch07.wav''"
    by (simp_all add: r)
  with s d' show ?thesis by simp
qed

text \<open>
  C9. The author and the title are substituted into the template before the chapter
  number is applied, so a percent sign in them is read as a directive. The sanitizer
  keeps percent signs. With the default template the author \<open>100%\<close> makes the
  operator raise \<open>ValueError\<close> for every chapter number, in any environment, and the
  run of the example book ends at its first chapter with nothing synthesized although
  two chapters were accepted; the author \<open>50%% off\<close> gives a file name with a single
  percent sign, which is not the text that was substituted.
\<close>

theorem C9_percent_in_author_is_a_directive:
  "sanitize ''100%'' = ''100%'' \<and>
   final_filename en (demo_args ''m4a'' default_filename_format) (sanitize ''100%'')
     (sanitize ''Dune'') k = Inl (ValueError_unsupported_char CHR ''D'') \<and>
   length (accepted_texts (demo_env Say_ok Ffmpeg_ok Move_ok) (book_items demo_book)) = 2 \<and>
   process_book (demo_env Say_ok Ffmpeg_ok Move_ok)
     ((demo_args ''m4a'' default_filename_format)\<lparr>arg_author := Some ''100%''\<rparr>)
     ''a.epub'' demo_world
     = (Some (ValueError_unsupported_char CHR ''D''), demo_world) \<and>
   sanitize ''50%% off'' = ''50%% off'' \<and>
   final_filename en (demo_args ''m4a'' default_filename_format) (sanitize ''50%% off'')
     (sanitize ''Dune'') 3 = Inr ''50% off-Dune - Chapter 03.m4a'' \<and>
   ''50% off-Dune - Chapter 03.m4a'' \<noteq> ''50%% off-Dune - Chapter 03.m4a''"
proof -
  have 1: "sanitize ''100%'' = ''100%''" "sanitize ''50%% off'' = ''50%% off''"
    by code_simp+
  have 2: "final_filename en (demo_args ''m4a'' default_filename_format) (sanitize ''100%'')
     (sanitize ''Dune'') k = Inl (ValueError_unsupported_char CHR ''D'')"
    by code_simp
  have 3: "length (accepted_texts (demo_env Say_ok Ffmpeg_ok Move_ok) (book_items demo_book)) = 2"
    by code_simp
  have 4: "process_book (demo_env Say_ok Ffmpeg_ok Move_ok)
     ((demo_args ''m4a'' default_filename_format)\<lparr>arg_author := Some ''100%''\<rparr>)
     ''a.epub'' demo_world
     = (Some (ValueError_unsupported_char CHR ''D''), demo_world)"
    by code_simp
  have 5: "final_filename en (demo_args ''m4a'' default_filename_format) (sanitize ''50%% off'')
     (sanitize ''Dune'') 3 = Inr ''50% off-Dune - Chapter 03.m4a''"
    by code_simp
  show ?thesis using 1 2 3 4 5 by simp
qed



lemma number_from_snd: "map snd (number_from k ts) = ts"
  by (induction ts arbitrary: k) auto





lemma convert_audio_says:
  "RunSay p t \<in> set (trace (snd (convert_audio en i out ext v w))) \<longleftrightarrow>
   RunSay p t \<in> set (trace w)"
  by (simp add: convert_audio_def Let_def trace_emit trace_log convert_failed_def
                ffmpeg_missing_def split: move_outcome.splits ffmpeg_outcome.splits)

lemma tts_generation_says:
  assumes "RunSay p t \<in> set (trace (tts_generation en a k x f w))"
  shows "RunSay p t \<in> set (trace w) \<or> t = x"
proof -
  obtain r w2 where c: "convert_audio en (mktemp en w) f (ext_of a) (arg_verbose a)
      (emit (RunSay (mktemp en w) x) (make_temp en w)) = (r, w2)"
    by (cases "convert_audio en (mktemp en w) f (ext_of a) (arg_verbose a)
      (emit (RunSay (mktemp en w) x) (make_temp en w))") auto
  from convert_audio_says[of p t en "mktemp en w" f "ext_of a" "arg_verbose a"
      "emit (RunSay (mktemp en w) x) (make_temp en w)"]
  have "RunSay p t \<in> set (trace w2) \<longleftrightarrow> RunSay p t \<in> set (trace w) \<or> (p = mktemp en w \<and> t = x)"
    by (auto simp: c trace_emit trace_make_temp)
  with assms show ?thesis
    by (auto simp: tts_generation_def Let_def c trace_emit trace_make_temp tts_failed_def
             split: say_outcome.splits option.splits if_splits)
qed

lemma process_chapter_says:
  assumes "RunSay p t \<in> set (trace (snd (process_chapter en a sa st k x w)))"
  shows "RunSay p t \<in> set (trace w) \<or> t = x"
proof (cases "final_filename en a sa st k")
  case (Inl e)
  with assms show ?thesis by (auto simp: process_chapter_def trace_log split: if_splits)
next
  case (Inr f)
  with assms have "RunSay p t \<in> set (trace (tts_generation en a k x f
      (log (''Processing Chapter '' @ str_int k @ ''...'') (arg_verbose a) w)))"
    by (simp add: process_chapter_def)
  from tts_generation_says[OF this] show ?thesis
    by (auto simp: trace_log split: if_splits)
qed

lemma produce_says:
  "RunSay p t \<in> set (trace (snd (produce en a sa st cs w))) \<Longrightarrow>
   RunSay p t \<in> set (trace w) \<or> t \<in> snd ` set cs"
proof (induction cs arbitrary: w)
  case Nil
  then show ?case by simp
next
  case (Cons c cs)
  obtain k x where c: "c = (k, x)" by (cases c)
  obtain r w' where q: "process_chapter en a sa st k x w = (r, w')"
    by (cases "process_chapter en a sa st k x w") auto
  show ?case
  proof (cases r)
    case None
    with Cons.prems c q have "RunSay p t \<in> set (trace (snd (produce en a sa st cs w')))"
      by simp
    from Cons.IH[OF this] process_chapter_says[of p t en a sa st k x w] q c
    show ?thesis by auto
  next
    case (Some e)
    with Cons.prems c q have "RunSay p t \<in> set (trace w')" by simp
    with process_chapter_says[of p t en a sa st k x w] q c show ?thesis by auto
  qed
qed

lemma chapters_loop_skip:
  "item_type it \<noteq> 9 \<or> length (item_text en it) < 100 \<Longrightarrow>
   chapters_loop en a sa st (xs @ it # ys) k w = chapters_loop en a sa st (xs @ ys) k w"
proof (induction xs arbitrary: k w)
  case Nil
  then show ?case by auto
next
  case (Cons x xs)
  then show ?case by (simp split: prod.splits option.splits)
qed

text \<open>
  C5. An item whose stripped text is shorter than 100 characters makes no chapter: the
  run of a document with the item is the run of the document without it (the same
  result and the same world, so no synthesis, no conversion, no file and no number
  for it). Every text that the chapter loop hands to the synthesizer is the text of
  an accepted item and has at least 100 characters.
\<close>

theorem C5_short_items_make_no_chapter:
  "(length (item_text en it) < 100 \<longrightarrow>
      chapters_loop en a sa st (xs @ it # ys) k w = chapters_loop en a sa st (xs @ ys) k w) \<and>
   (RunSay p t \<in> set (trace (snd (chapters_loop en a sa st its k w))) \<longrightarrow>
      RunSay p t \<in> set (trace w) \<or> (100 \<le> length t \<and> t \<in> set (accepted_texts en its)))"
proof -
  have "RunSay p t \<in> set (trace w) \<or> (100 \<le> length t \<and> t \<in> set (accepted_texts en its))"
    if "RunSay p t \<in> set (trace (snd (chapters_loop en a sa st its k w)))"
  proof -
    from that produce_says[of p t en a sa st "number_from k (accepted_texts en its)" w]
    have "RunSay p t \<in> set (trace w) \<or> t \<in> set (map snd (number_from k (accepted_texts en its)))"
      by (simp add: chapters_loop_produce)
    then have "RunSay p t \<in> set (trace w) \<or> t \<in> set (accepted_texts en its)"
      by (simp only: number_from_snd)
    then show ?thesis by (auto simp: accepted_texts_def)
  qed
  with chapters_loop_skip[of it en a sa st xs ys k w] show ?thesis by blast
qed

theorem C5_short_items_make_no_chapter_witness:
  "chapters_loop (demo_env Say_ok Ffmpeg_ok Move_ok) (demo_args ''m4a'' default_filename_format)
     ''Jane Doe'' ''Dune''
     ([\<lparr>item_type = 9, item_content = replicate 100 CHR ''a''\<rparr>] @
      \<lparr>item_type = 9, item_content = ''  cover  ''\<rparr> #
      [\<lparr>item_type = 9, item_content = replicate 100 CHR ''b''\<rparr>]) 1 demo_world
   = chapters_loop (demo_env Say_ok Ffmpeg_ok Move_ok) (demo_args ''m4a'' default_filename_format)
     ''Jane Doe'' ''Dune''
     ([\<lparr>item_type = 9, item_content = replicate 100 CHR ''a''\<rparr>] @
      [\<lparr>item_type = 9, item_content = replicate 100 CHR ''b''\<rparr>]) 1 demo_world \<and>
   100 \<le> length (replicate 100 CHR ''a'') \<and>
   replicate 100 CHR ''a'' \<in> set (accepted_texts (demo_env Say_ok Ffmpeg_ok Move_ok) demo_items)"
proof -
  have h: "length (item_text (demo_env Say_ok Ffmpeg_ok Move_ok)
             \<lparr>item_type = 9, item_content = ''  cover  ''\<rparr>) < 100"
    by code_simp
  have s: "RunSay ''/tmp/tmp0.aiff'' (replicate 100 CHR ''a'') \<in>
      set (trace (snd (chapters_loop (demo_env Say_ok Ffmpeg_ok Move_ok)
        (demo_args ''m4a'' default_filename_format) ''Jane Doe'' ''Dune'' demo_items 1 demo_world)))"
    by code_simp
  have n: "RunSay ''/tmp/tmp0.aiff'' (replicate 100 CHR ''a'') \<notin> set (trace demo_world)"
    by (simp add: demo_world_def)
  from C5_short_items_make_no_chapter[where en = "demo_env Say_ok Ffmpeg_ok Move_ok"
      and a = "demo_args ''m4a'' default_filename_format" and sa = "''Jane Doe''"
      and st = "''Dune''" and it = "\<lparr>item_type = 9, item_content = ''  cover  ''\<rparr>"
      and xs = "[\<lparr>item_type = 9, item_content = replicate 100 CHR ''a''\<rparr>]"
      and ys = "[\<lparr>item_type = 9, item_content = replicate 100 CHR ''b''\<rparr>]"
      and k = 1 and w = demo_world and its = demo_items
      and p = "''/tmp/tmp0.aiff''" and t = "replicate 100 CHR ''a''"] h s n
  show ?thesis by blast
qed



lemma tts_generation_say_raises:
  "say_run en (make_temp en w) (mktemp en w) t = Say_raises msg \<Longrightarrow>
   tts_generation en a k t f w =
     emit (tts_failed k msg) (emit (RunSay (mktemp en w) t) (make_temp en w))"
  by (simp add: tts_generation_def)


lemma tts_generation_converted:
  "say_run en (make_temp en w) (mktemp en w) t = Say_ok \<Longrightarrow>
   convert_audio en (mktemp en w) f (ext_of a) (arg_verbose a)
     (emit (RunSay (mktemp en w) t) (make_temp en w)) = (None, w2) \<Longrightarrow>
   mktemp en w \<notin> files (tts_generation en a k t f w)"
  by (simp add: tts_generation_def Let_def files_emit)

lemma temp_file_left_after_synthesis_failure:
  "say_run en (make_temp en w) (mktemp en w) t = Say_raises msg \<Longrightarrow>
   mktemp en w \<in> files (tts_generation en a k t f w)"
  by (simp add: tts_generation_say_raises files_emit files_make_temp)

lemma convert_audio_exit_error:
  assumes "ext \<noteq> ''.aiff''"
    and "ffmpeg_run en (log (converting i out ext) v w) (ffmpeg_cmd i ext @ [out])
           = Ffmpeg_exit_error wrote"
  shows "convert_audio en i out ext v w =
           (None, emit (convert_failed ext)
                    (emit (RunFfmpeg (ffmpeg_cmd i ext @ [out]))
                       ((log (converting i out ext) v w)
                          \<lparr>files := (if wrote then insert out (files w) else files w)\<rparr>)))"
  using assms by (simp add: convert_audio_def Let_def files_log)

lemma convert_audio_not_found:
  assumes "ext \<noteq> ''.aiff''"
    and "ffmpeg_run en (log (converting i out ext) v w) (ffmpeg_cmd i ext @ [out])
           = Ffmpeg_not_found"
  shows "convert_audio en i out ext v w =
           (None, emit ffmpeg_missing
                    (emit (RunFfmpeg (ffmpeg_cmd i ext @ [out])) (log (converting i out ext) v w)))"
  using assms by (simp add: convert_audio_def Let_def)

text \<open>
  C2 does not hold for a failed synthesis: the temporary file is removed only after
  \<open>convert_audio\<close> has returned, inside the \<open>try\<close> block. In the example run \<open>say\<close>
  fails for both chapters; both temporary files exist at the end, the first one
  already while the second chapter is processed, and nothing was removed.
\<close>

theorem C2_temp_file_left_when_say_fails:
  "process_book (demo_env (Say_raises ''boom'') Ffmpeg_ok Move_ok)
     (demo_args ''m4a'' default_filename_format) ''a.epub'' demo_world
   = (None,
      \<lparr>files = {''/tmp/tmp3.aiff'', ''/tmp/tmp0.aiff'', ''a.epub'', ''b.epub''},
       trace = [Mktemp ''/tmp/tmp0.aiff'',
                RunSay ''/tmp/tmp0.aiff'' (replicate 100 CHR ''a''),
                Stdout ''[ERROR] TTS or Conversion failed for chapter 1: boom'',
                Mktemp ''/tmp/tmp3.aiff'',
                RunSay ''/tmp/tmp3.aiff'' (replicate 100 CHR ''b''),
                Stdout ''[ERROR] TTS or Conversion failed for chapter 2: boom'']\<rparr>)"
  by code_simp

text \<open>
  C7, as the specification states it, fails: \<open>convert_audio\<close> has no clean-up. When
  \<open>ffmpeg\<close> exits with an error after it has written to the destination, the
  destination exists afterwards, here for both chapters of the example book.
\<close>

theorem C7_destination_left_counterexample:
  "files (snd (process_book (demo_env Say_ok (Ffmpeg_exit_error True) Move_ok)
     (demo_args ''m4a'' default_filename_format) ''a.epub'' demo_world))
   = {''Jane Doe-Dune - Chapter 02.m4a'', ''Jane Doe-Dune - Chapter 01.m4a'', ''a.epub'', ''b.epub''} \<and>
   printed (trace (snd (process_book (demo_env Say_ok (Ffmpeg_exit_error True) Move_ok)
     (demo_args ''m4a'' default_filename_format) ''a.epub'' demo_world)))
   = [''[ERROR] Failed to convert to .m4a. Is ffmpeg installed?'',
      ''[ERROR] Failed to convert to .m4a. Is ffmpeg installed?'']"
  by code_simp

text \<open>
  C7, amended. For a format other than \<open>.aiff\<close>: when \<open>ffmpeg\<close> is not installed or
  exits with an error, \<open>convert_audio\<close> prints one error line on standard error and
  returns without an exception, and it removes nothing. With \<open>ffmpeg\<close> missing the
  files are the files from before the call; after an error exit they are the files
  from before together with the destination if \<open>ffmpeg\<close> wrote to it.
\<close>

theorem C7_encoder_failure_is_reported_only:
  "ext \<noteq> ''.aiff'' \<longrightarrow>
     (ffmpeg_run en (log (converting i out ext) v w) (ffmpeg_cmd i ext @ [out]) = Ffmpeg_not_found \<longrightarrow>
        fst (convert_audio en i out ext v w) = None \<and>
        files (snd (convert_audio en i out ext v w)) = files w \<and>
        trace (snd (convert_audio en i out ext v w)) =
          trace (log (converting i out ext) v w) @
          [RunFfmpeg (ffmpeg_cmd i ext @ [out]), ffmpeg_missing]) \<and>
     (ffmpeg_run en (log (converting i out ext) v w) (ffmpeg_cmd i ext @ [out])
        = Ffmpeg_exit_error wrote \<longrightarrow>
        fst (convert_audio en i out ext v w) = None \<and>
        files (snd (convert_audio en i out ext v w)) =
          (if wrote then insert out (files w) else files w) \<and>
        trace (snd (convert_audio en i out ext v w)) =
          trace (log (converting i out ext) v w) @
          [RunFfmpeg (ffmpeg_cmd i ext @ [out]), convert_failed ext])"
  by (simp add: convert_audio_exit_error convert_audio_not_found files_emit trace_emit files_log)

theorem C7_encoder_failure_is_reported_only_witness:
  "files (snd (convert_audio (demo_env Say_ok Ffmpeg_not_found Move_ok)
       ''/tmp/t.aiff'' ''out.m4a'' ''.m4a'' False \<lparr>files = {''/tmp/t.aiff'', ''out.m4a''}, trace = []\<rparr>))
     = {''/tmp/t.aiff'', ''out.m4a''} \<and>
   files (snd (convert_audio (demo_env Say_ok (Ffmpeg_exit_error True) Move_ok)
       ''/tmp/t.aiff'' ''out.m4a'' ''.m4a'' False \<lparr>files = {''/tmp/t.aiff''}, trace = []\<rparr>))
     = {''out.m4a'', ''/tmp/t.aiff''} \<and>
   fst (convert_audio (demo_env Say_ok (Ffmpeg_exit_error True) Move_ok)
       ''/tmp/t.aiff'' ''out.m4a'' ''.m4a'' False \<lparr>files = {''/tmp/t.aiff''}, trace = []\<rparr>) = None"
proof -
  have x: "''.m4a'' \<noteq> ''.aiff''" by simp
  have n: "ffmpeg_run (demo_env Say_ok Ffmpeg_not_found Move_ok)
       (log (converting ''/tmp/t.aiff'' ''out.m4a'' ''.m4a'') False
          \<lparr>files = {''/tmp/t.aiff'', ''out.m4a''}, trace = []\<rparr>)
       (ffmpeg_cmd ''/tmp/t.aiff'' ''.m4a'' @ [''out.m4a'']) = Ffmpeg_not_found"
    by (simp add: demo_env_def)
  have e: "ffmpeg_run (demo_env Say_ok (Ffmpeg_exit_error True) Move_ok)
       (log (converting ''/tmp/t.aiff'' ''out.m4a'' ''.m4a'') False
          \<lparr>files = {''/tmp/t.aiff''}, trace = []\<rparr>)
       (ffmpeg_cmd ''/tmp/t.aiff'' ''.m4a'' @ [''out.m4a'']) = Ffmpeg_exit_error True"
    by (simp add: demo_env_def)
  from C7_encoder_failure_is_reported_only[where en = "demo_env Say_ok Ffmpeg_not_found Move_ok"
      and ext = "''.m4a''" and i = "''/tmp/t.aiff''" and out = "''out.m4a''" and v = False
      and w = "\<lparr>files = {''/tmp/t.aiff'', ''out.m4a''}, trace = []\<rparr>"] x n
  have 1: "files (snd (convert_audio (demo_env Say_ok Ffmpeg_not_found Move_ok)
       ''/tmp/t.aiff'' ''out.m4a'' ''.m4a'' False \<lparr>files = {''/tmp/t.aiff'', ''out.m4a''}, trace = []\<rparr>))
     = {''/tmp/t.aiff'', ''out.m4a''}"
    by simp
  from C7_encoder_failure_is_reported_only[where en = "demo_env Say_ok (Ffmpeg_exit_error True) Move_ok"
      and ext = "''.m4a''" and i = "''/tmp/t.aiff''" and out = "''out.m4a''" and v = False
      and w = "\<lparr>files = {''/tmp/t.aiff''}, trace = []\<rparr>" and wrote = True] x e
  have 2: "files (snd (convert_audio (demo_env Say_ok (Ffmpeg_exit_error True) Move_ok)
       ''/tmp/t.aiff'' ''out.m4a'' ''.m4a'' False \<lparr>files = {''/tmp/t.aiff''}, trace = []\<rparr>))
     = {''out.m4a'', ''/tmp/t.aiff''}"
    and 3: "fst (convert_audio (demo_env Say_ok (Ffmpeg_exit_error True) Move_ok)
       ''/tmp/t.aiff'' ''out.m4a'' ''.m4a'' False \<lparr>files = {''/tmp/t.aiff''}, trace = []\<rparr>) = None"
    by simp_all
  from 1 2 3 show ?thesis by simp
qed







end
